theory Spec2Isabelle
  imports Complex_Main "HOL-Library.AList"
begin

section \<open>The expense ledger of splitwise.py\<close>

text \<open>
  Modelling conventions.
  \<^item> A \<^verbatim>\<open>User\<close> object is identified with its \<^verbatim>\<open>id\<close> (the name followed by a fresh
    uuid4): distinct objects carry distinct ids, users hash and compare by object identity,
    and every balance map is keyed by id.
  \<^item> A Python \<^verbatim>\<open>dict\<close> is an association list in insertion order. Storing under a key
    that is present replaces the value in place, storing under a new key appends: this is
    \<^const>\<open>AList.update\<close>. Lookup is \<^const>\<open>map_of\<close>.
  \<^item> Amounts are exact rationals. The source computes with Python numbers (ints, and
    floats after a true division); rounding of floats is outside this model. The
    properties below turn on the branches taken, the entries stored and the formulas
    applied, and on values that floats represent exactly; none rests on a law of exact
    arithmetic that rounding breaks, such as computed shares adding up to the amount.
  \<^item> An exception is a value of \<open>error\<close>. A pure function returns \<open>error + 'a\<close>; a method
    that mutates returns the pair of \<open>error option\<close> (\<open>None\<close>: returned normally) and the
    state at the moment it returned or raised.
\<close>

type_synonym uid = string
type_synonym ('k, 'v) dict = "('k \<times> 'v) list"
type_synonym amount = rat

text \<open>
  Every exception of the source is a \<^verbatim>\<open>ValueError\<close> told apart by its message; the
  constructors carry the names the specification gives them. \<open>ZeroDivisionError\<close> is the
  division in \<^verbatim>\<open>EqualSplit.split\<close> on an empty user list, \<open>TypeError\<close> the call of
  \<^verbatim>\<open>HeapSettlement.settle\<close> (see there).
\<close>

datatype error =
    UnknownSplitType
  | UnknownSettlementPolicy
  | MissingCustomShares
  | SplitSumMismatch
  | PercentageSumMismatch
  | NoOutstandingBalance
  | SettlementExceedsBalance
  | ZeroDivisionError
  | TypeError

subsection \<open>Dictionaries\<close>

text \<open>\<^verbatim>\<open>d[k]\<close> on a \<^verbatim>\<open>defaultdict(float)\<close>: the stored value, or 0 for a missing key.\<close>

definition dd_get :: "('k, amount) dict \<Rightarrow> 'k \<Rightarrow> amount" where
  "dd_get d k = (case map_of d k of None \<Rightarrow> 0 | Some v \<Rightarrow> v)"

text \<open>\<^verbatim>\<open>d[k] += x\<close> and \<^verbatim>\<open>d[k] -= x\<close> on a \<^verbatim>\<open>defaultdict(float)\<close>.\<close>

definition dd_add :: "('k, amount) dict \<Rightarrow> 'k \<Rightarrow> amount \<Rightarrow> ('k, amount) dict" where
  "dd_add d k x = AList.update k (dd_get d k + x) d"

definition dd_sub :: "('k, amount) dict \<Rightarrow> 'k \<Rightarrow> amount \<Rightarrow> ('k, amount) dict" where
  "dd_sub d k x = AList.update k (dd_get d k - x) d"

text \<open>A dict comprehension \<^verbatim>\<open>{k: v for ...}\<close>: the items are stored one after the other.\<close>

definition dict_of_items :: "('k \<times> 'v) list \<Rightarrow> ('k, 'v) dict" where
  "dict_of_items items = fold (\<lambda>(k, v) d. AList.update k v d) items []"

text \<open>\<^verbatim>\<open>sum(d.values())\<close>.\<close>

definition sum_values :: "('k, amount) dict \<Rightarrow> amount" where
  "sum_values d = sum_list (map snd d)"

subsection \<open>Split strategies\<close>

datatype SplitStrategy = EqualSplit | ExactSplit | PercentageSplit

text \<open>
  The registry is filled by the three \<^verbatim>\<open>register_strategy\<close> calls at import time; the
  members of \<^verbatim>\<open>SplitType\<close> are the strings they are named after.
\<close>

definition registry :: "(string, SplitStrategy) dict" where
  "registry = [(''EQUAL'', EqualSplit), (''EXACT'', ExactSplit), (''PERCENTAGE'', PercentageSplit)]"

definition get_strategy :: "string \<Rightarrow> error + SplitStrategy" where
  "get_strategy split_type =
     (case map_of registry split_type of
        None \<Rightarrow> Inl UnknownSplitType
      | Some strategy_cls \<Rightarrow> Inr strategy_cls)"

text \<open>
  \<^verbatim>\<open>custom_splits\<close> is \<open>None\<close> or a dict from users to numbers. \<^verbatim>\<open>not custom_splits\<close>
  holds for \<open>None\<close> and for the empty dict.
\<close>

definition falsy :: "(uid, amount) dict option \<Rightarrow> bool" where
  "falsy custom_splits = (case custom_splits of None \<Rightarrow> True | Some d \<Rightarrow> d = [])"

definition EqualSplit_split ::
  "uid \<Rightarrow> amount \<Rightarrow> uid list \<Rightarrow> (uid, amount) dict option \<Rightarrow> error + (uid, amount) dict" where
  "EqualSplit_split payer amount users custom_splits =
     (if length users = 0 then Inl ZeroDivisionError
      else let per_head = amount / of_nat (length users)
           in Inr (dict_of_items (map (\<lambda>user. (user, per_head)) users)))"

definition ExactSplit_split ::
  "uid \<Rightarrow> amount \<Rightarrow> uid list \<Rightarrow> (uid, amount) dict option \<Rightarrow> error + (uid, amount) dict" where
  "ExactSplit_split payer amount users custom_splits =
     (if falsy custom_splits then Inl MissingCustomShares
      else if sum_values (the custom_splits) \<noteq> amount then Inl SplitSumMismatch
      else Inr (the custom_splits))"

definition PercentageSplit_split ::
  "uid \<Rightarrow> amount \<Rightarrow> uid list \<Rightarrow> (uid, amount) dict option \<Rightarrow> error + (uid, amount) dict" where
  "PercentageSplit_split payer amount users custom_splits =
     (if falsy custom_splits then Inl MissingCustomShares
      else if sum_values (the custom_splits) \<noteq> 100 then Inl PercentageSumMismatch
      else Inr (dict_of_items
                  (map (\<lambda>(user, percent). (user, (percent / 100) * amount)) (the custom_splits))))"

fun split ::
  "SplitStrategy \<Rightarrow> uid \<Rightarrow> amount \<Rightarrow> uid list \<Rightarrow> (uid, amount) dict option
     \<Rightarrow> error + (uid, amount) dict" where
  "split EqualSplit = EqualSplit_split"
| "split ExactSplit = ExactSplit_split"
| "split PercentageSplit = PercentageSplit_split"

subsection \<open>Expenses\<close>

text \<open>The \<^verbatim>\<open>id\<close> of an expense is a random uuid4 that nothing reads; it is left out.\<close>

record Expense =
  payer :: uid
  amount :: amount
  splits :: "(uid, amount) dict"
  description :: string

definition Expense_init ::
  "uid \<Rightarrow> amount \<Rightarrow> uid list \<Rightarrow> SplitStrategy \<Rightarrow> (uid, amount) dict option \<Rightarrow> string
     \<Rightarrow> error + Expense" where
  "Expense_init p a users split_strategy custom_splits descr =
     (case split split_strategy p a users custom_splits of
        Inl e \<Rightarrow> Inl e
      | Inr s \<Rightarrow> Inr \<lparr>payer = p, amount = a, splits = s, description = descr\<rparr>)"

subsection \<open>The state: the users' balance maps and the group\<close>

datatype SettlementAlgo = HEAP_BASED | BRUTE_FORCE

text \<open>
  \<open>balance s u\<close> is the \<^verbatim>\<open>balance\<close> defaultdict of the user \<open>u\<close>; the other fields are those
  of the \<^verbatim>\<open>UserGroup\<close> (its name and uuid are never read).
\<close>

record state =
  balance :: "uid \<Rightarrow> (uid, amount) dict"
  users :: "uid list"
  expenses :: "Expense list"
  settlement_algo :: SettlementAlgo
  balance_sheet :: "(uid, (uid, amount) dict) dict"

text \<open>\<^verbatim>\<open>UserGroup(name, users, settlement_algo)\<close> over freshly created users.\<close>

definition UserGroup_init :: "uid list \<Rightarrow> SettlementAlgo \<Rightarrow> state" where
  "UserGroup_init us algo =
     \<lparr>balance = (\<lambda>u. []), users = us, expenses = [], settlement_algo = algo, balance_sheet = []\<rparr>"

text \<open>\<^verbatim>\<open>User.get_balance\<close>, and its sum over the users of the group.\<close>

definition get_balance :: "state \<Rightarrow> uid \<Rightarrow> amount" where
  "get_balance s u = sum_values (balance s u)"

definition total_balance :: "state \<Rightarrow> amount" where
  "total_balance s = sum_list (map (get_balance s) (users s))"

text \<open>One round of the loop of \<^verbatim>\<open>Expense.apply_split\<close>, and the loop.\<close>

definition apply_share ::
  "uid \<Rightarrow> uid \<times> amount \<Rightarrow> (uid \<Rightarrow> (uid, amount) dict) \<Rightarrow> (uid \<Rightarrow> (uid, amount) dict)" where
  "apply_share p item b =
     (case item of (user, share) \<Rightarrow>
        if user = p then b
        else let b1 = b(user := dd_sub (b user) p share)
             in b1(p := dd_add (b1 p) user share))"

definition apply_split :: "Expense \<Rightarrow> (uid \<Rightarrow> (uid, amount) dict) \<Rightarrow> (uid \<Rightarrow> (uid, amount) dict)" where
  "apply_split expense b = fold (apply_share (payer expense)) (splits expense) b"

text \<open>
  \<^verbatim>\<open>balance_sheet[user][payer] += share\<close> on the nested defaultdict: a missing row springs
  into existence empty.
\<close>

definition sheet_row :: "(uid, (uid, amount) dict) dict \<Rightarrow> uid \<Rightarrow> (uid, amount) dict" where
  "sheet_row bs u = (case map_of bs u of None \<Rightarrow> [] | Some row \<Rightarrow> row)"

definition sheet_add ::
  "uid \<Rightarrow> uid \<times> amount \<Rightarrow> (uid, (uid, amount) dict) dict \<Rightarrow> (uid, (uid, amount) dict) dict" where
  "sheet_add p item bs =
     (case item of (user, share) \<Rightarrow>
        if user \<noteq> p then AList.update user (dd_add (sheet_row bs user) p share) bs
        else bs)"

definition add_expense ::
  "uid \<Rightarrow> amount \<Rightarrow> string \<Rightarrow> (uid, amount) dict option \<Rightarrow> string \<Rightarrow> state
     \<Rightarrow> error option \<times> state" where
  "add_expense p a split_type custom_splits descr s =
     (case get_strategy split_type of
        Inl e \<Rightarrow> (Some e, s)
      | Inr split_strategy \<Rightarrow>
          (case Expense_init p a (users s) split_strategy custom_splits descr of
             Inl e \<Rightarrow> (Some e, s)
           | Inr expense \<Rightarrow>
               let s1 = s\<lparr>balance := apply_split expense (balance s)\<rparr>;
                   s2 = s1\<lparr>expenses := expenses s1 @ [expense]\<rparr>;
                   s3 = s2\<lparr>balance_sheet := fold (sheet_add p) (splits expense) (balance_sheet s2)\<rparr>
               in (None, s3)))"

subsection \<open>Settlement\<close>

text \<open>The entry \<^verbatim>\<open>balance_sheet[debtor][creditor]\<close>, \<open>None\<close> when either key is missing.\<close>

definition sheet_entry :: "(uid, (uid, amount) dict) dict \<Rightarrow> uid \<Rightarrow> uid \<Rightarrow> amount option" where
  "sheet_entry bs debtor creditor =
     (case map_of bs debtor of None \<Rightarrow> None | Some row \<Rightarrow> map_of row creditor)"

definition BruteForceSettlement_settle ::
  "uid \<Rightarrow> uid \<Rightarrow> amount \<Rightarrow> state \<Rightarrow> error option \<times> state" where
  "BruteForceSettlement_settle p q a s =
     (case map_of (balance_sheet s) p of
        None \<Rightarrow> (Some NoOutstandingBalance, s)
      | Some row \<Rightarrow>
          (case map_of row q of
             None \<Rightarrow> (Some NoOutstandingBalance, s)
           | Some v \<Rightarrow>
               if v \<ge> a then
                 let s1 = s\<lparr>balance_sheet :=
                             AList.update p (AList.update q (v - a) row) (balance_sheet s)\<rparr>;
                     s2 = s1\<lparr>balance := (balance s1)(q := dd_sub (balance s1 q) p a)\<rparr>;
                     s3 = s2\<lparr>balance := (balance s2)(p := dd_sub (balance s2 p) q a)\<rparr>
                 in (None, s3)
               else (Some SettlementExceedsBalance, s)))"

text \<open>
  \<^verbatim>\<open>HeapSettlement.settle\<close> is declared without \<^verbatim>\<open>self\<close>, and \<^verbatim>\<open>settle_expense\<close> calls it
  on an instance with the keyword \<^verbatim>\<open>payer=\<close>: the instance already fills the first
  parameter \<^verbatim>\<open>payer\<close>, so the call raises \<^verbatim>\<open>TypeError\<close> before the body runs.
\<close>

definition HeapSettlement_settle ::
  "uid \<Rightarrow> uid \<Rightarrow> amount \<Rightarrow> state \<Rightarrow> error option \<times> state" where
  "HeapSettlement_settle p q a s = (Some TypeError, s)"

definition settle_expense :: "uid \<Rightarrow> uid \<Rightarrow> amount \<Rightarrow> state \<Rightarrow> error option \<times> state" where
  "settle_expense p q a s =
     (case settlement_algo s of
        BRUTE_FORCE \<Rightarrow> BruteForceSettlement_settle p q a s
      | HEAP_BASED \<Rightarrow> HeapSettlement_settle p q a s)"

subsection \<open>The passbook\<close>

text \<open>
  \<^verbatim>\<open>dict(self.balance_sheet)\<close> builds a new dict from the items of the balance sheet. Here
  the rows are values; the section on sharing below keeps them as references.
\<close>

definition get_passbook :: "state \<Rightarrow> (uid, (uid, amount) dict) dict" where
  "get_passbook s = dict_of_items (balance_sheet s)"


subsection \<open>The rows of the balance sheet as shared objects\<close>

text \<open>
  The balance sheet is a dict of dicts: the outer dict holds a reference to each row, and
  the row objects live in a store. \<open>sheet_of\<close> reads the nested value off the two.
  \<^verbatim>\<open>dict(self.balance_sheet)\<close> copies the outer dict only, so the passbook holds the same
  references. \<open>store_through\<close> is the caller's \<^verbatim>\<open>pb[d][c] = v\<close> on a passbook \<open>pb\<close>
  (a \<^verbatim>\<open>KeyError\<close> when \<open>d\<close> is no key of \<open>pb\<close>, which changes nothing).
\<close>

type_synonym ref = nat

definition sheet_of ::
  "(uid, ref) dict \<Rightarrow> (ref \<Rightarrow> (uid, amount) dict) \<Rightarrow> (uid, (uid, amount) dict) dict" where
  "sheet_of outer cells = map (\<lambda>(k, r). (k, cells r)) outer"

definition get_passbook_refs :: "(uid, ref) dict \<Rightarrow> (uid, ref) dict" where
  "get_passbook_refs outer = dict_of_items outer"

definition store_through ::
  "(uid, ref) dict \<Rightarrow> uid \<Rightarrow> uid \<Rightarrow> amount \<Rightarrow> (ref \<Rightarrow> (uid, amount) dict)
     \<Rightarrow> (ref \<Rightarrow> (uid, amount) dict)" where
  "store_through pb d c v cells =
     (case map_of pb d of
        None \<Rightarrow> cells
      | Some r \<Rightarrow> cells(r := AList.update c v (cells r)))"

subsection \<open>The example of the source\<close>

text \<open>
  The group of the example at the end of the source, with the names standing for the ids,
  and its state after the first expense,
  \<^verbatim>\<open>trip_group.add_expense(payer=alice, amount=300, split_type=SplitType.EQUAL)\<close>.
\<close>

definition trip_group :: state where
  "trip_group = UserGroup_init [''Alice'', ''Bob'', ''Charlie''] BRUTE_FORCE"

definition scenario_A :: state where
  "scenario_A = snd (add_expense ''Alice'' 300 ''EQUAL'' None [] trip_group)"

text \<open>The rows of \<open>scenario_A\<close> laid out in a store: Bob's row at 0, Charlie's at 1.\<close>

definition outer_A :: "(uid, ref) dict" where
  "outer_A = [(''Bob'', 0), (''Charlie'', 1)]"

definition cells_A :: "ref \<Rightarrow> (uid, amount) dict" where
  "cells_A = (\<lambda>r. [])(0 := [(''Alice'', 100)], 1 := [(''Alice'', 100)])"

text \<open>
  The outstanding amount of an ordered pair as the specification reads it: a missing entry
  counts as 0.
\<close>

definition outstanding :: "(uid, (uid, amount) dict) dict \<Rightarrow> uid \<Rightarrow> uid \<Rightarrow> amount" where
  "outstanding bs debtor creditor =
     (case sheet_entry bs debtor creditor of None \<Rightarrow> 0 | Some v \<Rightarrow> v)"

section \<open>Properties\<close>

subsection \<open>Dictionaries\<close>




lemma map_of_dd_sub:
  "map_of (dd_sub d k x) k' = (if k' = k then Some (dd_get d k - x) else map_of d k')"
  by (simp add: dd_sub_def update_conv')

lemma sheet_entry_update:
  "sheet_entry (AList.update p row bs) d c = (if d = p then map_of row c else sheet_entry bs d c)"
  by (simp add: sheet_entry_def update_conv')

subsection \<open>The shape of a settlement\<close>

lemma settle_error_state:
  "fst (settle_expense p q a s) = Some e \<Longrightarrow> snd (settle_expense p q a s) = s"
  by (auto simp: settle_expense_def BruteForceSettlement_settle_def HeapSettlement_settle_def
        Let_def split: SettlementAlgo.splits option.splits if_splits)

lemma settle_brute_force:
  assumes "settlement_algo s = BRUTE_FORCE"
  shows "settle_expense p q a s =
     (case sheet_entry (balance_sheet s) p q of
        None \<Rightarrow> (Some NoOutstandingBalance, s)
      | Some v \<Rightarrow>
          if a \<le> v then
            (None, s\<lparr>balance_sheet :=
                      AList.update p (AList.update q (v - a) (sheet_row (balance_sheet s) p))
                        (balance_sheet s),
                    balance := ((balance s)(q := dd_sub (balance s q) p a))
                      (p := dd_sub (((balance s)(q := dd_sub (balance s q) p a)) p) q a)\<rparr>)
          else (Some SettlementExceedsBalance, s))"
  using assms
  by (simp add: settle_expense_def BruteForceSettlement_settle_def sheet_entry_def sheet_row_def
        Let_def split: option.splits)

lemma settle_success:
  assumes "fst (settle_expense p q a s) = None"
  shows "\<exists>v. sheet_entry (balance_sheet s) p q = Some v \<and> a \<le> v \<and>
     snd (settle_expense p q a s) =
       s\<lparr>balance_sheet :=
            AList.update p (AList.update q (v - a) (sheet_row (balance_sheet s) p))
              (balance_sheet s),
          balance := ((balance s)(q := dd_sub (balance s q) p a))
            (p := dd_sub (((balance s)(q := dd_sub (balance s q) p a)) p) q a)\<rparr>"
proof (cases "settlement_algo s")
  case HEAP_BASED
  with assms show ?thesis
    by (simp add: settle_expense_def HeapSettlement_settle_def)
next
  case BRUTE_FORCE
  from assms show ?thesis
    unfolding settle_brute_force [OF BRUTE_FORCE]
    by (auto split: option.splits if_splits)
qed

subsection \<open>The example, evaluated\<close>

lemmas eval_defs =
  trip_group_def UserGroup_init_def add_expense_def get_strategy_def registry_def
  Expense_init_def EqualSplit_split_def ExactSplit_split_def PercentageSplit_split_def
  falsy_def dict_of_items_def sum_values_def apply_split_def apply_share_def sheet_add_def
  sheet_row_def dd_add_def dd_sub_def dd_get_def Let_def

lemma trip_group_add_ok:
  "fst (add_expense ''Alice'' 300 ''EQUAL'' None [] trip_group) = None"
  by (simp add: eval_defs)

lemma scenario_A_sheet:
  "balance_sheet scenario_A = [(''Bob'', [(''Alice'', 100)]), (''Charlie'', [(''Alice'', 100)])]"
  by (simp add: scenario_A_def eval_defs)

lemma scenario_A_fields:
  "users scenario_A = [''Alice'', ''Bob'', ''Charlie'']"
  "settlement_algo scenario_A = BRUTE_FORCE"
  "expenses scenario_A =
     [\<lparr>payer = ''Alice'', amount = 300,
       splits = [(''Alice'', 100), (''Bob'', 100), (''Charlie'', 100)], description = []\<rparr>]"
  by (simp_all add: scenario_A_def eval_defs)

lemma scenario_A_balance:
  "balance scenario_A ''Alice'' = [(''Bob'', 100), (''Charlie'', 100)]"
  "balance scenario_A ''Bob'' = [(''Alice'', - 100)]"
  "balance scenario_A ''Charlie'' = [(''Alice'', - 100)]"
  by (simp_all add: scenario_A_def eval_defs)

lemma scenario_A_entry:
  "sheet_entry (balance_sheet scenario_A) ''Bob'' ''Alice'' = Some 100"
  by (simp add: scenario_A_sheet sheet_entry_def)

lemma scenario_A_settle:
  "settle_expense ''Bob'' ''Alice'' 100 scenario_A =
     (None, scenario_A\<lparr>balance_sheet :=
                        [(''Bob'', [(''Alice'', 0)]), (''Charlie'', [(''Alice'', 100)])],
                      balance := (balance scenario_A)
                        (''Alice'' := [(''Bob'', 0), (''Charlie'', 100)],
                         ''Bob'' := [(''Alice'', - 200)])\<rparr>)"
  by (simp add: settle_brute_force [OF scenario_A_fields(2)] sheet_entry_def scenario_A_sheet
        scenario_A_balance sheet_row_def dd_sub_def dd_get_def)


lemma sheet_row_entry:
  "sheet_entry bs p q = Some v \<Longrightarrow> map_of (sheet_row bs p) c = sheet_entry bs p c"
  by (auto simp: sheet_entry_def sheet_row_def split: option.splits)

lemma settle_full_then_again:
  assumes algo: "settlement_algo s = BRUTE_FORCE"
    and entry: "sheet_entry (balance_sheet s) p q = Some a"
    and pos: "0 < a"
  shows "fst (settle_expense p q a s) = None"
    and "sheet_entry (balance_sheet (snd (settle_expense p q a s))) p q = Some 0"
    and "settle_expense p q a (snd (settle_expense p q a s)) =
           (Some SettlementExceedsBalance, snd (settle_expense p q a s))"
proof -
  let ?s' = "snd (settle_expense p q a s)"
  show ok: "fst (settle_expense p q a s) = None"
    by (simp add: settle_brute_force [OF algo] entry)
  have algo': "settlement_algo ?s' = BRUTE_FORCE"
    by (simp add: settle_brute_force [OF algo] entry algo)
  show entry': "sheet_entry (balance_sheet ?s') p q = Some 0"
    by (simp add: settle_brute_force [OF algo] entry sheet_entry_update update_conv')
  show "settle_expense p q a ?s' = (Some SettlementExceedsBalance, ?s')"
    using pos by (simp add: settle_brute_force [OF algo'] entry')
qed

subsection \<open>The claims\<close>

text \<open>
  C1 (conservation: after any sequence of successful \<^verbatim>\<open>add_expense\<close> and
  \<^verbatim>\<open>settle_expense\<close> calls the users' balance maps sum to 0). The code breaks it at the
  first settlement. After the first expense of the example the maps sum to 0, since
  \<^verbatim>\<open>apply_split\<close> subtracts the share from the debtor and adds it to the payer. Bob then
  repays Alice his 100: \<^verbatim>\<open>settle\<close> subtracts the amount from both maps, so Alice's entry
  for Bob falls to 0 while Bob's entry for Alice falls to -200, and the sum is -200.
\<close>

theorem settle_breaks_conservation:
  "fst (add_expense ''Alice'' 300 ''EQUAL'' None [] trip_group) = None \<and>
   total_balance scenario_A = 0 \<and>
   fst (settle_expense ''Bob'' ''Alice'' 100 scenario_A) = None \<and>
   balance (snd (settle_expense ''Bob'' ''Alice'' 100 scenario_A)) ''Alice''
     = [(''Bob'', 0), (''Charlie'', 100)] \<and>
   balance (snd (settle_expense ''Bob'' ''Alice'' 100 scenario_A)) ''Bob''
     = [(''Alice'', - 200)] \<and>
   total_balance (snd (settle_expense ''Bob'' ''Alice'' 100 scenario_A)) = - 200"
  by (simp add: trip_group_add_ok scenario_A_settle total_balance_def get_balance_def
        sum_values_def scenario_A_fields scenario_A_balance)

text \<open>
  C2 as stated (settlement fails with \<open>SettlementExceedsBalance\<close> exactly when the amount
  exceeds the outstanding entry, a missing entry counting as 0, and succeeds otherwise) is
  false on a fresh group: nothing is outstanding between Bob and Alice, yet settling 100
  raises \<open>NoOutstandingBalance\<close>, and settling 0, which does not exceed 0, raises it too
  instead of succeeding.
\<close>

theorem settlement_bound_counterexample:
  "outstanding (balance_sheet trip_group) ''Bob'' ''Alice'' < 100 \<and>
   fst (settle_expense ''Bob'' ''Alice'' 100 trip_group) \<noteq> Some SettlementExceedsBalance \<and>
   \<not> outstanding (balance_sheet trip_group) ''Bob'' ''Alice'' < 0 \<and>
   fst (settle_expense ''Bob'' ''Alice'' 0 trip_group) \<noteq> None"
  by (simp add: outstanding_def sheet_entry_def settle_expense_def
        BruteForceSettlement_settle_def trip_group_def UserGroup_init_def)

text \<open>
  C2, amended: under the brute-force policy, a settlement between a pair with no entry
  raises \<open>NoOutstandingBalance\<close> whatever the amount and leaves the state as it was. When
  the entry is present with value \<open>v\<close>, the settlement raises \<open>SettlementExceedsBalance\<close>
  exactly when the amount exceeds \<open>v\<close> (the state stays as it was), and otherwise succeeds
  and leaves the entry at \<open>v - a\<close>.
\<close>

theorem settlement_bound:
  assumes "settlement_algo s = BRUTE_FORCE"
  shows "case sheet_entry (balance_sheet s) p q of
           None \<Rightarrow> settle_expense p q a s = (Some NoOutstandingBalance, s)
         | Some v \<Rightarrow>
             (if v < a then settle_expense p q a s = (Some SettlementExceedsBalance, s)
              else fst (settle_expense p q a s) = None \<and>
                   sheet_entry (balance_sheet (snd (settle_expense p q a s))) p q
                     = Some (v - a))"
  by (simp add: settle_brute_force [OF assms] sheet_entry_update update_conv'
        split: option.splits)

theorem settlement_bound_witness:
  "settlement_algo scenario_A = BRUTE_FORCE \<and>
   sheet_entry (balance_sheet scenario_A) ''Bob'' ''Alice'' = Some 100 \<and>
   settle_expense ''Bob'' ''Alice'' 150 scenario_A = (Some SettlementExceedsBalance, scenario_A) \<and>
   fst (settle_expense ''Bob'' ''Alice'' 40 scenario_A) = None \<and>
   sheet_entry (balance_sheet (snd (settle_expense ''Bob'' ''Alice'' 40 scenario_A)))
     ''Bob'' ''Alice'' = Some 60 \<and>
   settle_expense ''Alice'' ''Bob'' 40 scenario_A = (Some NoOutstandingBalance, scenario_A)"
proof -
  have algo: "settlement_algo scenario_A = BRUTE_FORCE"
    by (rule scenario_A_fields(2))
  have none: "sheet_entry (balance_sheet scenario_A) ''Alice'' ''Bob'' = None"
    by (simp add: scenario_A_sheet sheet_entry_def)
  from settlement_bound [OF algo, of "''Bob''" "''Alice''" 150]
    settlement_bound [OF algo, of "''Bob''" "''Alice''" 40]
    settlement_bound [OF algo, of "''Alice''" "''Bob''" 40]
  show ?thesis
    by (simp add: algo none scenario_A_entry)
qed

text \<open>
  C3 as stated (after Bob has repaid the full 100, repeating the call fails with
  \<open>NoOutstandingBalance\<close>) is false: the first call leaves the entry in the balance sheet
  with value 0, so the second call finds it and raises \<open>SettlementExceedsBalance\<close>.
\<close>

theorem repeat_settlement_counterexample:
  "sheet_entry (balance_sheet scenario_A) ''Bob'' ''Alice'' = Some 100 \<and>
   fst (settle_expense ''Bob'' ''Alice'' 100 scenario_A) = None \<and>
   fst (settle_expense ''Bob'' ''Alice'' 100
          (snd (settle_expense ''Bob'' ''Alice'' 100 scenario_A)))
     \<noteq> Some NoOutstandingBalance"
  using settle_full_then_again [OF scenario_A_fields(2) scenario_A_entry]
  by (simp add: scenario_A_entry)

text \<open>
  C3, amended: when the entry of the pair is 100 under the brute-force policy, settling 100
  succeeds and leaves the entry present with value 0; repeating the call raises
  \<open>SettlementExceedsBalance\<close> and changes nothing.
\<close>

theorem repeat_settlement:
  assumes "settlement_algo s = BRUTE_FORCE"
    and "sheet_entry (balance_sheet s) p q = Some 100"
  shows "fst (settle_expense p q 100 s) = None \<and>
         sheet_entry (balance_sheet (snd (settle_expense p q 100 s))) p q = Some 0 \<and>
         settle_expense p q 100 (snd (settle_expense p q 100 s)) =
           (Some SettlementExceedsBalance, snd (settle_expense p q 100 s))"
  using settle_full_then_again [OF assms] by simp

theorem repeat_settlement_witness:
  "settlement_algo scenario_A = BRUTE_FORCE \<and>
   sheet_entry (balance_sheet scenario_A) ''Bob'' ''Alice'' = Some 100 \<and>
   fst (settle_expense ''Bob'' ''Alice'' 100 scenario_A) = None \<and>
   sheet_entry (balance_sheet (snd (settle_expense ''Bob'' ''Alice'' 100 scenario_A)))
     ''Bob'' ''Alice'' = Some 0 \<and>
   fst (settle_expense ''Bob'' ''Alice'' 100
          (snd (settle_expense ''Bob'' ''Alice'' 100 scenario_A)))
     = Some SettlementExceedsBalance"
  using repeat_settlement [OF scenario_A_fields(2) scenario_A_entry]
  by (simp add: scenario_A_fields(2) scenario_A_entry)

text \<open>
  C5 (the equal-split scenario): on the fresh group of Alice, Bob and Charlie, Alice's
  expense of 300 split equally succeeds and the passbook is
  \<open>{Bob: {Alice: 100}, Charlie: {Alice: 100}}\<close>. The recorded shares are 300 / 3 for each
  of the three users, the payer included, but the payer's share creates no row and no entry
  in the balance sheet, and no entry for herself in her balance map.
\<close>

theorem equal_split_scenario:
  "fst (add_expense ''Alice'' 300 ''EQUAL'' None [] trip_group) = None \<and>
   get_passbook scenario_A = [(''Bob'', [(''Alice'', 100)]), (''Charlie'', [(''Alice'', 100)])] \<and>
   map splits (expenses scenario_A) = [[(''Alice'', 100), (''Bob'', 100), (''Charlie'', 100)]] \<and>
   map_of (balance_sheet scenario_A) ''Alice'' = None \<and>
   map_of (balance scenario_A ''Alice'') ''Alice'' = None"
  by (simp add: trip_group_add_ok get_passbook_def dict_of_items_def scenario_A_sheet
        scenario_A_fields scenario_A_balance)

text \<open>
  C6 (error atomicity): whenever \<^verbatim>\<open>add_expense\<close> or \<^verbatim>\<open>settle_expense\<close> raises, the state
  at the raise is the state before the call: the users' balance maps, the expenses and the
  balance sheet are untouched. This holds for every error of the model, the six named ones
  among them.
\<close>

theorem error_atomicity:
  "(fst (add_expense p a split_type custom_splits descr s) = Some e \<longrightarrow>
      snd (add_expense p a split_type custom_splits descr s) = s) \<and>
   (fst (settle_expense p q a' s) = Some e' \<longrightarrow> snd (settle_expense p q a' s) = s)"
  by (auto simp: add_expense_def Let_def settle_error_state split: sum.splits)

theorem error_atomicity_witness:
  "fst (add_expense ''Alice'' 100 ''EXACT'' None [] scenario_A) = Some MissingCustomShares \<and>
   snd (add_expense ''Alice'' 100 ''EXACT'' None [] scenario_A) = scenario_A \<and>
   fst (settle_expense ''Bob'' ''Alice'' 150 scenario_A) = Some SettlementExceedsBalance \<and>
   snd (settle_expense ''Bob'' ''Alice'' 150 scenario_A) = scenario_A"
proof -
  have add: "fst (add_expense ''Alice'' 100 ''EXACT'' None [] scenario_A)
      = Some MissingCustomShares"
    by (simp add: add_expense_def get_strategy_def registry_def Expense_init_def
          ExactSplit_split_def falsy_def)
  have settle: "fst (settle_expense ''Bob'' ''Alice'' 150 scenario_A)
      = Some SettlementExceedsBalance"
    by (simp add: settle_brute_force [OF scenario_A_fields(2)] scenario_A_entry)
  from error_atomicity [where p = "''Alice''" and a = 100 and split_type = "''EXACT''"
      and custom_splits = None and descr = "[]" and s = scenario_A
      and e = MissingCustomShares]
    error_atomicity [where p = "''Bob''" and q = "''Alice''" and a' = 150 and s = scenario_A
      and e' = SettlementExceedsBalance]
    add settle
  show ?thesis
    by simp
qed

text \<open>
  C7 (the passbook is a snapshot, and mutating what \<^verbatim>\<open>get_passbook\<close> returns does not
  affect the ledger). The code copies the outer dict only. In the state after the first
  expense of the example, storing 0 under \<^verbatim>\<open>pb[Bob][Alice]\<close> of the returned passbook
  changes the ledger's own balance sheet, and Bob's settlement of 100, which would have
  succeeded, raises \<open>SettlementExceedsBalance\<close>.
\<close>

theorem passbook_shares_rows:
  "sheet_of outer_A cells_A = balance_sheet scenario_A \<and>
   sheet_of (get_passbook_refs outer_A) cells_A = get_passbook scenario_A \<and>
   sheet_of outer_A (store_through (get_passbook_refs outer_A) ''Bob'' ''Alice'' 0 cells_A)
     = [(''Bob'', [(''Alice'', 0)]), (''Charlie'', [(''Alice'', 100)])] \<and>
   fst (settle_expense ''Bob'' ''Alice'' 100 scenario_A) = None \<and>
   fst (settle_expense ''Bob'' ''Alice'' 100
          (scenario_A\<lparr>balance_sheet :=
             sheet_of outer_A
               (store_through (get_passbook_refs outer_A) ''Bob'' ''Alice'' 0 cells_A)\<rparr>))
     = Some SettlementExceedsBalance"
  by (simp add: sheet_of_def outer_A_def cells_A_def get_passbook_refs_def get_passbook_def
        dict_of_items_def store_through_def scenario_A_sheet scenario_A_settle
        settle_expense_def BruteForceSettlement_settle_def scenario_A_fields)




text \<open>
  C9 (an empty share map counts as missing): with an empty \<^verbatim>\<open>custom_splits\<close> both the exact
  and the percentage policy raise \<open>MissingCustomShares\<close>, for every payer, amount and user
  list, and so does \<^verbatim>\<open>add_expense\<close>; the exact policy does so for the amount 0 as well,
  which the sum of the empty map, 0, would have matched.
\<close>

theorem empty_shares_count_as_missing:
  "ExactSplit_split p a us (Some []) = Inl MissingCustomShares \<and>
   PercentageSplit_split p a us (Some []) = Inl MissingCustomShares \<and>
   sum_values ([] :: (uid, amount) dict) = 0 \<and>
   ExactSplit_split p 0 us (Some []) = Inl MissingCustomShares \<and>
   add_expense p a ''EXACT'' (Some []) descr s = (Some MissingCustomShares, s) \<and>
   add_expense p a ''PERCENTAGE'' (Some []) descr s = (Some MissingCustomShares, s)"
  by (simp add: ExactSplit_split_def PercentageSplit_split_def falsy_def sum_values_def
        add_expense_def get_strategy_def registry_def Expense_init_def)

text \<open>
  C10 (the frame of a settlement): a successful \<^verbatim>\<open>settle_expense(payer, payee, amount)\<close>
  leaves the expenses, the user list and the settlement policy as they were, every entry
  of the balance sheet other than \<open>[payer][payee]\<close>, and every entry of every user's
  balance map other than the payee's entry for the payer and the payer's entry for the
  payee.
\<close>

theorem settlement_frame:
  assumes "fst (settle_expense p q a s) = None"
  shows "expenses (snd (settle_expense p q a s)) = expenses s \<and>
         users (snd (settle_expense p q a s)) = users s \<and>
         settlement_algo (snd (settle_expense p q a s)) = settlement_algo s \<and>
         (\<forall>d c. (d, c) \<noteq> (p, q) \<longrightarrow>
            sheet_entry (balance_sheet (snd (settle_expense p q a s))) d c
              = sheet_entry (balance_sheet s) d c) \<and>
         (\<forall>u k. (u, k) \<noteq> (q, p) \<longrightarrow> (u, k) \<noteq> (p, q) \<longrightarrow>
            map_of (balance (snd (settle_expense p q a s)) u) k = map_of (balance s u) k)"
proof -
  from settle_success [OF assms] obtain v where
    entry: "sheet_entry (balance_sheet s) p q = Some v" and
    s': "snd (settle_expense p q a s) =
       s\<lparr>balance_sheet :=
            AList.update p (AList.update q (v - a) (sheet_row (balance_sheet s) p))
              (balance_sheet s),
          balance := ((balance s)(q := dd_sub (balance s q) p a))
            (p := dd_sub (((balance s)(q := dd_sub (balance s q) p a)) p) q a)\<rparr>"
    by blast
  have sheet: "sheet_entry (balance_sheet (snd (settle_expense p q a s))) d c
      = sheet_entry (balance_sheet s) d c" if "(d, c) \<noteq> (p, q)" for d c
    using that by (auto simp: s' sheet_entry_update update_conv' sheet_row_entry [OF entry])
  have bal: "map_of (balance (snd (settle_expense p q a s)) u) k = map_of (balance s u) k"
    if "(u, k) \<noteq> (q, p)" "(u, k) \<noteq> (p, q)" for u k
    using that by (auto simp: s' map_of_dd_sub)
  show ?thesis
    using sheet bal by (simp add: s')
qed

theorem settlement_frame_witness:
  "fst (settle_expense ''Bob'' ''Alice'' 100 scenario_A) = None \<and>
   expenses (snd (settle_expense ''Bob'' ''Alice'' 100 scenario_A)) = expenses scenario_A \<and>
   sheet_entry (balance_sheet (snd (settle_expense ''Bob'' ''Alice'' 100 scenario_A)))
     ''Charlie'' ''Alice'' = Some 100 \<and>
   map_of (balance (snd (settle_expense ''Bob'' ''Alice'' 100 scenario_A)) ''Alice'') ''Charlie''
     = Some 100"
proof -
  have ok: "fst (settle_expense ''Bob'' ''Alice'' 100 scenario_A) = None"
    by (simp add: scenario_A_settle)
  from settlement_frame [OF ok] ok show ?thesis
    by (simp add: scenario_A_sheet sheet_entry_def scenario_A_balance)
qed

end
